theory Spec2Isabelle
  imports Main
begin

section \<open>Shared values\<close>

text \<open>
  Errors of the JavaScript source as values. \<open>ErrorWithStatusCode\<close> is the repository's
  error carrier (a status code and a message); \<open>TypeError\<close> is what the runtime raises on
  a property read or a method call on \<open>undefined\<close>; \<open>PlainRejection\<close> is a promise
  rejected with a bare object \<open>{message: ...}\<close>.
\<close>

datatype js_error =
    ErrorWithStatusCode int string
  | TypeError
  | PlainRejection string

text \<open>A promise is settled at most once: later calls of resolve or reject are ignored.\<close>

datatype 'a promise = Pending | Resolved 'a | Rejected js_error

definition resolve :: "'a \<Rightarrow> 'a promise \<Rightarrow> 'a promise" where
  "resolve v p = (case p of Pending \<Rightarrow> Resolved v | _ \<Rightarrow> p)"

definition reject :: "js_error \<Rightarrow> 'a promise \<Rightarrow> 'a promise" where
  "reject e p = (case p of Pending \<Rightarrow> Rejected e | _ \<Rightarrow> p)"

record channel =
  ch_id :: nat
  ch_name :: string

section \<open>MumbleClientWrapper\<close>

text \<open>
  The connection object of the voice-protocol library, seen from the wrapper: the handlers
  the wrapper registered on it (in registration order), the user name it was authenticated
  with, the channel lookups, and how often \<open>connection.disconnect()\<close> was called.
\<close>

datatype handler = ConnErrCb | InitializedCb | OnVoice | OnMessage | OnError

record mumble_conn =
  listeners :: "(string \<times> handler) list"
  authenticatedAs :: "string option"
  channelByName :: "string \<Rightarrow> channel option"
  channelById :: "nat \<Rightarrow> channel option"
  disconnectCalls :: nat

text \<open>What the wrapper itself emits to its subscribers.\<close>

datatype wrapper_event =
    EmitError js_error
  | EmitMessage string
  | EmitVoice nat

record mumble_client =
  cfg_username :: string
  connected :: bool
  connectCalled :: bool
  connection :: "mumble_conn option"
  connectPromise :: "unit promise option"
  emitted :: "wrapper_event list"

text \<open>The constructor: both flags false, no connection object stored.\<close>

definition MumbleClientWrapper :: "string \<Rightarrow> mumble_client" where
  "MumbleClientWrapper username =
     \<lparr>cfg_username = username, connected = False, connectCalled = False,
      connection = None, connectPromise = None, emitted = []\<rparr>"

text \<open>The \<open>status\<close> getter, without the channel snapshot.\<close>

definition mumble_status :: "mumble_client \<Rightarrow> bool \<times> bool" where
  "mumble_status c = (connected c, connectCalled c)"

text \<open>
  \<open>connect\<close> marks the attempt and opens the promise; the library then calls back with
  an error or with a connection object. A method that can throw returns the error it threw,
  if any, together with the state it left behind.
\<close>

definition connect :: "mumble_client \<Rightarrow> mumble_client" where
  "connect c = c\<lparr>connectCalled := True, connectPromise := Some Pending\<rparr>"

definition connectCallback :: "string option \<Rightarrow> mumble_conn \<Rightarrow> mumble_client \<Rightarrow> mumble_client" where
  "connectCallback error conn c =
     (case error of
        Some _ \<Rightarrow>
          c\<lparr>connectPromise :=
               map_option (reject (ErrorWithStatusCode 500 ''Mumble Connection Error''))
                 (connectPromise c)\<rparr>
      | None \<Rightarrow>
          c\<lparr>connection :=
               Some (conn\<lparr>authenticatedAs := Some (cfg_username c),
                          listeners := listeners conn
                            @ [(''error'', ConnErrCb), (''initialized'', InitializedCb)]\<rparr>)\<rparr>)"

text \<open>The events the library raises on the connection object.\<close>

datatype conn_event = EvError string | EvInitialized | EvVoice nat | EvMessage string

fun event_name :: "conn_event \<Rightarrow> string" where
  "event_name (EvError _) = ''error''"
| "event_name EvInitialized = ''initialized''"
| "event_name (EvVoice _) = ''voice''"
| "event_name (EvMessage _) = ''message''"

definition onError :: "string \<Rightarrow> mumble_client \<Rightarrow> mumble_client" where
  "onError error c =
     c\<lparr>emitted := emitted c @
          [EmitError (ErrorWithStatusCode 500
             ''Mumble connection has terminated due to an error. Re-connect needed'')]\<rparr>"

definition onMessage :: "string \<Rightarrow> mumble_client \<Rightarrow> mumble_client" where
  "onMessage message c = c\<lparr>emitted := emitted c @ [EmitMessage message]\<rparr>"

definition onVoice :: "nat \<Rightarrow> mumble_client \<Rightarrow> mumble_client" where
  "onVoice voice c = c\<lparr>emitted := emitted c @ [EmitVoice voice]\<rparr>"

text \<open>
  The bodies of the registered handlers. \<open>ConnErrCb\<close> rejects the connect promise;
  \<open>InitializedCb\<close> removes \<open>ConnErrCb\<close>, binds the three long-lived handlers, sets the
  connected flag and resolves.
\<close>

fun runHandler :: "handler \<Rightarrow> conn_event \<Rightarrow> mumble_client \<Rightarrow> mumble_client" where
  "runHandler ConnErrCb ev c =
     c\<lparr>connectPromise :=
          map_option (reject (ErrorWithStatusCode 500 ''Mumble Connection Error''))
            (connectPromise c)\<rparr>"
| "runHandler InitializedCb ev c =
     (case connection c of
        None \<Rightarrow> c
      | Some conn \<Rightarrow>
          c\<lparr>connection :=
               Some (conn\<lparr>listeners := remove1 (''error'', ConnErrCb) (listeners conn)
                            @ [(''voice'', OnVoice), (''message'', OnMessage), (''error'', OnError)]\<rparr>),
            connected := True,
            connectPromise := map_option (resolve ()) (connectPromise c)\<rparr>)"
| "runHandler OnVoice (EvVoice data) c = onVoice data c"
| "runHandler OnMessage (EvMessage message) c = onMessage message c"
| "runHandler OnError (EvError error) c = onError error c"
| "runHandler _ _ c = c"

text \<open>
  An event on the connection runs the handlers registered under its name when the event is
  raised, in registration order.
\<close>

definition connectionEmit :: "conn_event \<Rightarrow> mumble_client \<Rightarrow> mumble_client" where
  "connectionEmit ev c =
     (case connection c of
        None \<Rightarrow> c
      | Some conn \<Rightarrow>
          fold (\<lambda>h. runHandler h ev)
            (map snd (filter (\<lambda>l. fst l = event_name ev) (listeners conn))) c)"

text \<open>\<open>disconnect\<close>: the flag goes down first, then the stored connection is torn down.\<close>

definition disconnect :: "mumble_client \<Rightarrow> js_error option \<times> mumble_client" where
  "disconnect c =
     (let c1 = c\<lparr>connected := False\<rparr>
      in case connection c1 of
           None \<Rightarrow> (Some TypeError, c1)
         | Some conn \<Rightarrow>
             (None, c1\<lparr>connection := Some (conn\<lparr>disconnectCalls := disconnectCalls conn + 1\<rparr>)\<rparr>))"

subsection \<open>Joining a channel\<close>

definition RETRY_LIMIT :: nat where
  "RETRY_LIMIT = 1000"

text \<open>
  One join operation: its promise, the counter of the polling closure, the channels whose
  \<open>join()\<close> was called, and whether \<open>setTimeout(whileLoop, 0)\<close> has a callback waiting.
\<close>

record join_op =
  joinPromise :: "channel promise"
  retryCount :: nat
  joinCalls :: "channel list"
  timerPending :: bool

definition join_start :: join_op where
  "join_start = \<lparr>joinPromise = Pending, retryCount = 0, joinCalls = [], timerPending = False\<rparr>"

text \<open>
  \<open>whileLoop\<close>, one invocation. \<open>cur k\<close> is the identifier of the session's current channel
  as the \<open>k\<close>-th invocation reads it from \<open>this.connection.user.channel.id\<close>; the server
  changes it between invocations. The timer is set again on every mismatch, also after the
  rejection.
\<close>

definition whileLoop :: "(nat \<Rightarrow> nat) \<Rightarrow> channel \<Rightarrow> join_op \<Rightarrow> join_op" where
  "whileLoop cur channel j =
     (let j1 = j\<lparr>retryCount := retryCount j + 1\<rparr>
      in if ch_id channel \<noteq> cur (retryCount j1) then
           (let j2 = (if retryCount j1 > RETRY_LIMIT
                      then j1\<lparr>joinPromise := reject (PlainRejection ''Max retry exceeded'') (joinPromise j1)\<rparr>
                      else j1)
            in j2\<lparr>timerPending := True\<rparr>)
         else j1\<lparr>joinPromise := resolve channel (joinPromise j1)\<rparr>)"

text \<open>
  \<open>_channelJoinerWithChannelFetchFunc\<close>, the part that runs before the first timer fires.
  \<open>channelFetchFn\<close> is the outcome of the lookup: \<open>Inl\<close> when the call threw (caught and
  turned into a rejection), \<open>Inr None\<close> when it returned nothing.
\<close>

definition channelJoinerWithChannelFetchFunc ::
  "(js_error + channel option) \<Rightarrow> (nat \<Rightarrow> nat) \<Rightarrow> join_op" where
  "channelJoinerWithChannelFetchFunc channelFetchFn cur =
     (case channelFetchFn of
        Inl e \<Rightarrow> join_start\<lparr>joinPromise := reject e (joinPromise join_start)\<rparr>
      | Inr None \<Rightarrow>
          join_start\<lparr>joinPromise :=
            reject (ErrorWithStatusCode 404 ''Channel does not exist'') (joinPromise join_start)\<rparr>
      | Inr (Some channel) \<Rightarrow>
          whileLoop cur channel (join_start\<lparr>joinCalls := [channel]\<rparr>))"

definition joinChannelByName :: "string \<Rightarrow> (nat \<Rightarrow> nat) \<Rightarrow> mumble_client \<Rightarrow> join_op" where
  "joinChannelByName name cur c =
     channelJoinerWithChannelFetchFunc
       (case connection c of None \<Rightarrow> Inl TypeError | Some conn \<Rightarrow> Inr (channelByName conn name)) cur"

definition joinChannelById :: "nat \<Rightarrow> (nat \<Rightarrow> nat) \<Rightarrow> mumble_client \<Rightarrow> join_op" where
  "joinChannelById i cur c =
     channelJoinerWithChannelFetchFunc
       (case connection c of None \<Rightarrow> Inl TypeError | Some conn \<Rightarrow> Inr (channelById conn i)) cur"

text \<open>
  The event loop runs a waiting timer callback: the next invocation of \<open>whileLoop\<close>.
  \<open>timerTicks n\<close> is \<open>n\<close> turns of the event loop.
\<close>

definition timerTick :: "(nat \<Rightarrow> nat) \<Rightarrow> channel \<Rightarrow> join_op \<Rightarrow> join_op" where
  "timerTick cur channel j =
     (if timerPending j then whileLoop cur channel (j\<lparr>timerPending := False\<rparr>) else j)"

primrec timerTicks :: "nat \<Rightarrow> (nat \<Rightarrow> nat) \<Rightarrow> channel \<Rightarrow> join_op \<Rightarrow> join_op" where
  "timerTicks 0 cur channel j = j"
| "timerTicks (Suc n) cur channel j = timerTick cur channel (timerTicks n cur channel j)"

section \<open>PiComService: talk controller\<close>

datatype edge = UP | DOWN

definition LATCH_TIME_MS :: int where
  "LATCH_TIME_MS = 500"

datatype audio_status = AUDIO_NOT_SETUP | AUDIO_SETUP_ERROR | AUDIO_CONFIGURED

datatype severity = STATUS_NORMAL | STATUS_WARN | STATUS_ERROR

datatype mic_stream = Capturing | Paused

record hardware =
  setupDone :: bool
  talkLed :: bool
  callLed :: bool
  errorFlasher :: bool

text \<open>
  The service object. \<open>calling\<close>, \<open>transmitting\<close> and \<open>micLatch\<close> are the fields of
  \<open>this.state\<close>; \<open>txTimes\<close> and \<open>stopTxTimes\<close> hold timestamps in milliseconds, newest
  first; \<open>mic\<close> is \<open>None\<close> while \<open>this.mic\<close> is undefined (audio never set up) and
  otherwise records the last of \<open>resume()\<close>/\<open>pause()\<close> sent to the microphone.
\<close>

record picom =
  mumble :: mumble_client
  hw :: hardware
  calling :: bool
  transmitting :: bool
  micLatch :: bool
  txTimes :: "int list"
  stopTxTimes :: "int list"
  audioStatus :: audio_status
  mic :: "mic_stream option"

definition PiComService :: "string \<Rightarrow> hardware \<Rightarrow> picom" where
  "PiComService username h =
     \<lparr>mumble = MumbleClientWrapper username, hw = h,
      calling = False, transmitting = False, micLatch = False,
      txTimes = [], stopTxTimes = [],
      audioStatus = AUDIO_NOT_SETUP, mic = None\<rparr>"

text \<open>
  JavaScript numbers as far as the latch arithmetic needs them: an array read past the end
  is \<open>undefined\<close>, a subtraction with \<open>undefined\<close> is NaN (\<open>None\<close>), and every
  comparison with NaN is false.
\<close>

definition js_index :: "int list \<Rightarrow> nat \<Rightarrow> int option" where
  "js_index xs i = (if i < length xs then Some (xs ! i) else None)"

definition js_minus :: "int option \<Rightarrow> int option \<Rightarrow> int option" where
  "js_minus a b = (case (a, b) of (Some x, Some y) \<Rightarrow> Some (x - y) | _ \<Rightarrow> None)"

definition js_le :: "int option \<Rightarrow> int \<Rightarrow> bool" where
  "js_le a b = (case a of Some x \<Rightarrow> x \<le> b | None \<Rightarrow> False)"

text \<open>
  \<open>_latchLogic\<close>. The guard reads the length of the key-down history only. The gap bound
  \<open>LATCH_TIME_MS * 1.5\<close> is written with integers.
\<close>

definition latchLogic :: "picom \<Rightarrow> picom" where
  "latchLogic s =
     (if length (txTimes s) = 2 then
        (let firstHoldDuration = js_minus (js_index (stopTxTimes s) 1) (js_index (txTimes s) 1);
             secondHoldDuration = js_minus (js_index (stopTxTimes s) 0) (js_index (txTimes s) 0);
             timeBetweenTxEvents = js_minus (js_index (txTimes s) 0) (js_index (txTimes s) 1)
         in if js_le firstHoldDuration LATCH_TIME_MS
               \<and> js_le secondHoldDuration LATCH_TIME_MS
               \<and> js_le timeBetweenTxEvents (LATCH_TIME_MS * 3 div 2)
            then s\<lparr>micLatch := True, txTimes := []\<rparr>
            else s\<lparr>micLatch := False\<rparr>)
      else s\<lparr>micLatch := False\<rparr>)"

text \<open>
  \<open>_txEvent\<close>, with the time \<open>new Date()\<close> returns as the argument \<open>now\<close>.
  \<open>this.mic.resume()\<close> and \<open>this.mic.pause()\<close> throw when \<open>this.mic\<close> is undefined;
  what was assigned before the throw stays assigned.
\<close>

definition txEvent :: "edge \<Rightarrow> int \<Rightarrow> picom \<Rightarrow> js_error option \<times> picom" where
  "txEvent state now s =
     (if state = DOWN then
        (case mic s of
           None \<Rightarrow> (Some TypeError, s)
         | Some _ \<Rightarrow>
             (None, s\<lparr>mic := Some Capturing,
                      txTimes := take 2 (now # txTimes s),
                      transmitting := True,
                      hw := (hw s)\<lparr>talkLed := True\<rparr>\<rparr>))
      else
        (let s1 = latchLogic (s\<lparr>stopTxTimes := take 2 (now # stopTxTimes s), micLatch := False\<rparr>)
         in if \<not> micLatch s1 then
              (case mic s1 of
                 None \<Rightarrow> (Some TypeError, s1)
               | Some _ \<Rightarrow>
                   (None, s1\<lparr>mic := Some Paused,
                            transmitting := False,
                            hw := (hw s1)\<lparr>talkLed := False\<rparr>\<rparr>))
            else (None, s1)))"

text \<open>\<open>unLatchMic\<close>: a simulated release of the talk button, or an error with code 400.\<close>

definition unLatchMic :: "int \<Rightarrow> picom \<Rightarrow> js_error option \<times> picom" where
  "unLatchMic now s =
     (if micLatch s then txEvent UP now s
      else (Some (ErrorWithStatusCode 400 ''Cannot unlatch. Mic not latched''), s))"

text \<open>
  A run of talk-button edges, each with the time at which its handler reads the clock. Every
  edge is its own handler invocation on the state the previous one left.
\<close>

fun txEvents :: "(edge \<times> int) list \<Rightarrow> picom \<Rightarrow> picom" where
  "txEvents [] s = s"
| "txEvents ((e, t) # evs) s = txEvents evs (snd (txEvent e t s))"

section \<open>PiComService: status aggregation\<close>

text \<open>The \<open>_errorState\<close> getter: the overall severity and the messages in push order.\<close>

definition errorState :: "picom \<Rightarrow> severity \<times> (string \<times> severity) list" where
  "errorState s =
     (let messages =
            (if audioStatus s = AUDIO_NOT_SETUP
             then [(''WARNING - Audio Not Setup'', STATUS_WARN)] else [])
          @ (if audioStatus s = AUDIO_SETUP_ERROR
             then [(''ERROR - Audio Error'', STATUS_ERROR)] else [])
          @ (if \<not> setupDone (hw s)
             then [(''WARNING - Hardware Not Setup'', STATUS_WARN)] else [])
          @ (if \<not> fst (mumble_status (mumble s)) then
               (if snd (mumble_status (mumble s))
                then [(''ERROR - Mumble Not Connected'', STATUS_ERROR)]
                else [(''WARNING - Mumble Connection Not Attempted'', STATUS_WARN)])
             else []);
          warnLevel = length (filter (\<lambda>m. snd m = STATUS_WARN) messages) > 0;
          errorLevel = length (filter (\<lambda>m. snd m = STATUS_ERROR) messages) > 0
      in if errorLevel then (STATUS_ERROR, messages)
         else if warnLevel then (STATUS_WARN, messages)
         else (STATUS_NORMAL, messages))"

definition healthCheckCallback :: "picom \<Rightarrow> picom" where
  "healthCheckCallback s =
     s\<lparr>hw := (hw s)\<lparr>errorFlasher := (fst (errorState s) = STATUS_ERROR)\<rparr>\<rparr>"

section \<open>Reachable states of the service\<close>

text \<open>
  The states the service reaches from its constructor. The setup leaves some microphone
  object or none, some audio status and some session. Talk edges arrive in any order and at
  any time, and so do unlatch commands and health checks. A call edge sets its flag and its
  indicator and hands a text to the session; a session event changes the session; a
  reconfiguration replaces the session and the audio status and either keeps the microphone
  object or stores a new one that is not capturing. None of the last three assigns a field
  of the talk state.
\<close>

inductive talk_reach :: "picom \<Rightarrow> bool" where
  reach_init: "talk_reach ((PiComService u h)\<lparr>mic := m, audioStatus := a, mumble := c\<rparr>)"
| reach_tx: "talk_reach s \<Longrightarrow> talk_reach (snd (txEvent e t s))"
| reach_unlatch: "talk_reach s \<Longrightarrow> talk_reach (snd (unLatchMic t s))"
| reach_health: "talk_reach s \<Longrightarrow> talk_reach (healthCheckCallback s)"
| reach_call:
    "talk_reach s \<Longrightarrow> talk_reach (s\<lparr>calling := b, hw := (hw s)\<lparr>callLed := b\<rparr>, mumble := c\<rparr>)"
| reach_session: "talk_reach s \<Longrightarrow> talk_reach (s\<lparr>mumble := c\<rparr>)"
| reach_reconfigure:
    "talk_reach s \<Longrightarrow> m = mic s \<or> m = Some Paused \<Longrightarrow>
     talk_reach (s\<lparr>mic := m, audioStatus := a, mumble := c\<rparr>)"

text \<open>
  The invariant of the reachable states: as long as no microphone object is stored, no
  key-down was recorded and the latch is off.
\<close>

definition talk_inv :: "picom \<Rightarrow> bool" where
  "talk_inv s \<longleftrightarrow> (mic s = None \<longrightarrow> txTimes s = [] \<and> \<not> micLatch s)"

section \<open>The status rules as the specification words them\<close>

text \<open>
  Five independent rules in a fixed order, and the overall severity as the worst severity
  among the messages. These two definitions follow the specification, not the source; the
  source's \<open>errorState\<close> is compared with them below.
\<close>

definition rule_messages :: "audio_status \<Rightarrow> bool \<Rightarrow> bool \<Rightarrow> bool \<Rightarrow> (string \<times> severity) list" where
  "rule_messages audio hwDone conn attempted =
     (if audio = AUDIO_NOT_SETUP then [(''WARNING - Audio Not Setup'', STATUS_WARN)] else [])
   @ (if audio = AUDIO_SETUP_ERROR then [(''ERROR - Audio Error'', STATUS_ERROR)] else [])
   @ (if \<not> hwDone then [(''WARNING - Hardware Not Setup'', STATUS_WARN)] else [])
   @ (if \<not> conn \<and> attempted then [(''ERROR - Mumble Not Connected'', STATUS_ERROR)] else [])
   @ (if \<not> conn \<and> \<not> attempted
      then [(''WARNING - Mumble Connection Not Attempted'', STATUS_WARN)] else [])"

definition overall_severity :: "(string \<times> severity) list \<Rightarrow> severity" where
  "overall_severity ms =
     (if STATUS_ERROR \<in> snd ` set ms then STATUS_ERROR
      else if STATUS_WARN \<in> snd ` set ms then STATUS_WARN
      else STATUS_NORMAL)"

section \<open>Concrete sessions and services\<close>

text \<open>
  A client brought to readiness: \<open>connect\<close>, the transport callback with a connection on
  which nothing is registered yet, then the library's \<open>initialized\<close> event.
\<close>

definition readyClient :: "mumble_conn \<Rightarrow> mumble_client \<Rightarrow> mumble_client" where
  "readyClient conn c =
     connectionEmit EvInitialized (connectCallback None (conn\<lparr>listeners := []\<rparr>) (connect c))"

definition landing :: channel where
  "landing = \<lparr>ch_id = 1, ch_name = ''Landing Channel''\<rparr>"

text \<open>A connection as the library hands it over, on a server with one channel to join.\<close>

definition fresh_conn :: mumble_conn where
  "fresh_conn =
     \<lparr>listeners = [], authenticatedAs = None,
      channelByName = (\<lambda>n. if n = ''Landing Channel'' then Some landing else None),
      channelById = (\<lambda>i. if i = 1 then Some landing else None),
      disconnectCalls = 0\<rparr>"

text \<open>A session whose user stays in channel 0, whatever is polled.\<close>

definition never_there :: "nat \<Rightarrow> nat" where
  "never_there k = 0"

text \<open>The service after a successful setup: connected, microphone started and paused.\<close>

definition ready_service :: picom where
  "ready_service =
     (PiComService ''picom''
        \<lparr>setupDone = True, talkLed = False, callLed = False, errorFlasher = False\<rparr>)
     \<lparr>mic := Some Paused, audioStatus := AUDIO_CONFIGURED,
      mumble := readyClient fresh_conn (MumbleClientWrapper ''picom'')\<rparr>"

text \<open>
  The service after a setup with the audio hardware disabled: connected, but no microphone
  object was ever stored and the audio status is as the constructor left it.
\<close>

definition service_without_audio :: picom where
  "service_without_audio =
     (PiComService ''picom''
        \<lparr>setupDone = True, talkLed = False, callLed = False, errorFlasher = False\<rparr>)
     \<lparr>mumble := readyClient fresh_conn (MumbleClientWrapper ''picom'')\<rparr>"

section \<open>Evaluation of the concrete states\<close>

lemma readyClient_eq:
  "readyClient conn c =
     c\<lparr>connectCalled := True,
       connectPromise := Some (Resolved ()),
       connected := True,
       connection := Some (conn\<lparr>authenticatedAs := Some (cfg_username c),
         listeners := [(''initialized'', InitializedCb), (''voice'', OnVoice),
                       (''message'', OnMessage), (''error'', OnError)]\<rparr>)\<rparr>"
  by (simp add: readyClient_def connect_def connectCallback_def connectionEmit_def resolve_def)

lemmas talk_eval =
  ready_service_def PiComService_def txEvent_def latchLogic_def Let_def
  js_index_def js_minus_def js_le_def LATCH_TIME_MS_def unLatchMic_def

section \<open>The latch decision\<close>

lemma latchLogic_micLatch:
  "micLatch (latchLogic s) \<longleftrightarrow>
     (length (txTimes s) = 2 \<and> 2 \<le> length (stopTxTimes s)
      \<and> stopTxTimes s ! 1 - txTimes s ! 1 \<le> 500
      \<and> stopTxTimes s ! 0 - txTimes s ! 0 \<le> 500
      \<and> txTimes s ! 0 - txTimes s ! 1 \<le> 750)"
  by (auto simp: latchLogic_def Let_def js_index_def js_minus_def js_le_def LATCH_TIME_MS_def)

lemma latchLogic_txTimes:
  "txTimes (latchLogic s) = (if micLatch (latchLogic s) then [] else txTimes s)"
  by (simp add: latchLogic_def Let_def)

lemma latchLogic_frame:
  "stopTxTimes (latchLogic s) = stopTxTimes s" "mic (latchLogic s) = mic s"
  "transmitting (latchLogic s) = transmitting s" "hw (latchLogic s) = hw s"
  "mumble (latchLogic s) = mumble s" "calling (latchLogic s) = calling s"
  "audioStatus (latchLogic s) = audioStatus s"
  by (simp_all add: latchLogic_def Let_def)

lemma txEvent_UP_micLatch:
  "micLatch (snd (txEvent UP now s)) =
     micLatch (latchLogic (s\<lparr>stopTxTimes := take 2 (now # stopTxTimes s), micLatch := False\<rparr>))"
  by (simp add: txEvent_def Let_def split: option.splits)

lemma txEvent_UP_txTimes:
  "txTimes (snd (txEvent UP now s)) =
     txTimes (latchLogic (s\<lparr>stopTxTimes := take 2 (now # stopTxTimes s), micLatch := False\<rparr>))"
  by (simp add: txEvent_def Let_def split: option.splits)

text \<open>
  C1. On a release of the talk button at time \<open>now\<close>, with \<open>down\<close> the key-down history
  and \<open>stop\<close> the key-up history as the decision reads them (the new release already
  recorded, capped at two entries): the latch is set exactly when both histories hold two
  entries, the earlier hold \<open>stop[1] - down[1]\<close> and the later hold \<open>stop[0] - down[0]\<close>
  are at most 500 ms and the gap \<open>down[0] - down[1]\<close> is at most 750 ms. Setting the latch
  clears the key-down history; otherwise the latch is false and the history is kept.
\<close>

theorem latch_decision_on_keyUp:
  "let down = txTimes s;
       stop = take 2 (now # stopTxTimes s);
       s' = snd (txEvent UP now s)
   in (micLatch s' \<longleftrightarrow>
         length down = 2 \<and> length stop = 2
         \<and> stop ! 1 - down ! 1 \<le> 500
         \<and> stop ! 0 - down ! 0 \<le> 500
         \<and> down ! 0 - down ! 1 \<le> 750)
      \<and> micLatch s' = micLatch (latchLogic (s\<lparr>stopTxTimes := stop, micLatch := False\<rparr>))
      \<and> txTimes s' = (if micLatch s' then [] else down)"
proof -
  let ?s1 = "s\<lparr>stopTxTimes := take 2 (now # stopTxTimes s), micLatch := False\<rparr>"
  have len: "length (stopTxTimes ?s1) \<le> 2" by simp
  have a: "micLatch (snd (txEvent UP now s)) = micLatch (latchLogic ?s1)"
    by (rule txEvent_UP_micLatch)
  have b: "txTimes (snd (txEvent UP now s)) = (if micLatch (latchLogic ?s1) then [] else txTimes s)"
    by (simp add: txEvent_UP_txTimes latchLogic_txTimes)
  have c: "micLatch (latchLogic ?s1) \<longleftrightarrow>
     (length (txTimes s) = 2 \<and> length (take 2 (now # stopTxTimes s)) = 2
      \<and> take 2 (now # stopTxTimes s) ! 1 - txTimes s ! 1 \<le> 500
      \<and> take 2 (now # stopTxTimes s) ! 0 - txTimes s ! 0 \<le> 500
      \<and> txTimes s ! 0 - txTimes s ! 1 \<le> 750)"
    using len unfolding latchLogic_micLatch by auto
  show ?thesis unfolding Let_def using a b c by simp
qed

theorem latch_decision_on_keyUp_witness:
  "micLatch (snd (txEvent UP 300 (ready_service\<lparr>txTimes := [200, 0], stopTxTimes := [100]\<rparr>)))
   \<and> txTimes (snd (txEvent UP 300 (ready_service\<lparr>txTimes := [200, 0], stopTxTimes := [100]\<rparr>))) = []
   \<and> \<not> micLatch (snd (txEvent UP 701 (ready_service\<lparr>txTimes := [200, 0], stopTxTimes := [100]\<rparr>)))
   \<and> \<not> micLatch (snd (txEvent UP 300 (ready_service\<lparr>txTimes := [200, 0], stopTxTimes := []\<rparr>)))"
  using latch_decision_on_keyUp [of "ready_service\<lparr>txTimes := [200, 0], stopTxTimes := [100]\<rparr>" 300]
        latch_decision_on_keyUp [of "ready_service\<lparr>txTimes := [200, 0], stopTxTimes := [100]\<rparr>" 701]
        latch_decision_on_keyUp [of "ready_service\<lparr>txTimes := [200, 0], stopTxTimes := []\<rparr>" 300]
  by (simp add: Let_def)

section \<open>Transmitting follows the talk button\<close>

lemma txEvent_UP_micLatch_iff:
  "micLatch (snd (txEvent UP now s)) \<longleftrightarrow>
     (length (txTimes s) = 2 \<and> length (take 2 (now # stopTxTimes s)) = 2
      \<and> take 2 (now # stopTxTimes s) ! 1 - txTimes s ! 1 \<le> 500
      \<and> take 2 (now # stopTxTimes s) ! 0 - txTimes s ! 0 \<le> 500
      \<and> txTimes s ! 0 - txTimes s ! 1 \<le> 750)"
proof -
  let ?s1 = "s\<lparr>stopTxTimes := take 2 (now # stopTxTimes s), micLatch := False\<rparr>"
  have len: "length (stopTxTimes ?s1) \<le> 2" by simp
  have "micLatch (latchLogic ?s1) \<longleftrightarrow>
     (length (txTimes s) = 2 \<and> length (take 2 (now # stopTxTimes s)) = 2
      \<and> take 2 (now # stopTxTimes s) ! 1 - txTimes s ! 1 \<le> 500
      \<and> take 2 (now # stopTxTimes s) ! 0 - txTimes s ! 0 \<le> 500
      \<and> txTimes s ! 0 - txTimes s ! 1 \<le> 750)"
    using len unfolding latchLogic_micLatch by auto
  then show ?thesis by (simp only: txEvent_UP_micLatch)
qed

lemma txEvent_DOWN_ok:
  "mic s = Some m \<Longrightarrow>
   txEvent DOWN t s =
     (None, s\<lparr>mic := Some Capturing, txTimes := take 2 (t # txTimes s),
              transmitting := True, hw := (hw s)\<lparr>talkLed := True\<rparr>\<rparr>)"
  by (simp add: txEvent_def)

lemma txEvent_UP_unlatched:
  "mic s = Some m \<Longrightarrow> \<not> micLatch (snd (txEvent UP t s)) \<Longrightarrow>
   fst (txEvent UP t s) = None \<and> \<not> transmitting (snd (txEvent UP t s))
   \<and> mic (snd (txEvent UP t s)) = Some Paused \<and> \<not> talkLed (hw (snd (txEvent UP t s)))"
  by (auto simp: txEvent_def Let_def latchLogic_frame split: if_splits option.splits)

lemma txEvent_UP_latched:
  "micLatch (snd (txEvent UP t s)) \<Longrightarrow>
   fst (txEvent UP t s) = None \<and> transmitting (snd (txEvent UP t s)) = transmitting s
   \<and> mic (snd (txEvent UP t s)) = mic s \<and> hw (snd (txEvent UP t s)) = hw s"
  by (auto simp: txEvent_def Let_def latchLogic_frame split: if_splits option.splits)

lemma txEvent_mic_present:
  "mic s = Some m \<Longrightarrow> \<exists>m'. mic (snd (txEvent e t s)) = Some m'"
  by (cases e) (auto simp: txEvent_def Let_def latchLogic_frame split: option.splits)

lemma txEvents_mic_present:
  "mic s = Some m \<Longrightarrow> \<exists>m'. mic (txEvents evs s) = Some m'"
proof (induction evs arbitrary: s m)
  case Nil
  then show ?case by simp
next
  case (Cons ev evs)
  obtain e t where ev: "ev = (e, t)" by (cases ev)
  from txEvent_mic_present [OF Cons.prems, of e t]
  obtain m' where "mic (snd (txEvent e t s)) = Some m'" by blast
  from Cons.IH [OF this] show ?case by (simp add: ev)
qed

lemma txEvents_append: "txEvents (xs @ ys) s = txEvents ys (txEvents xs s)"
  by (induction xs arbitrary: s) auto

text \<open>
  C3, as amended. On a service whose microphone object exists, after any run of talk-button
  edges: right after a key-down the service is transmitting, the microphone stream is
  resumed and the talk indicator is on. A key-up sets the latch exactly when the latch
  decision fires on the two histories as it reads them; when the decision does not fire,
  the key-up pauses the microphone, sets transmitting to false and turns the indicator
  off. When the decision fires on a key-up that follows a key-down, the service is still
  transmitting, capture is still running and the indicator is still on.
\<close>

theorem transmitting_between_talk_edges:
  assumes "mic s0 = Some m"
  shows "(let s1 = txEvents (evs @ [(DOWN, t)]) s0
          in transmitting s1 \<and> mic s1 = Some Capturing \<and> talkLed (hw s1))
       \<and> (let s = txEvents evs s0;
               down = txTimes s;
               stop = take 2 (t' # stopTxTimes s);
               s3 = txEvents (evs @ [(UP, t')]) s0
          in if length down = 2 \<and> length stop = 2
                \<and> stop ! 1 - down ! 1 \<le> 500
                \<and> stop ! 0 - down ! 0 \<le> 500
                \<and> down ! 0 - down ! 1 \<le> 750
             then micLatch s3
             else \<not> micLatch s3 \<and> \<not> transmitting s3 \<and> mic s3 = Some Paused
                  \<and> \<not> talkLed (hw s3))
       \<and> (let s = txEvents evs s0;
               down = take 2 (t # txTimes s);
               stop = take 2 (t' # stopTxTimes s);
               s2 = txEvents (evs @ [(DOWN, t), (UP, t')]) s0
          in if length down = 2 \<and> length stop = 2
                \<and> stop ! 1 - down ! 1 \<le> 500
                \<and> stop ! 0 - down ! 0 \<le> 500
                \<and> down ! 0 - down ! 1 \<le> 750
             then micLatch s2 \<and> transmitting s2 \<and> mic s2 = Some Capturing \<and> talkLed (hw s2)
             else \<not> micLatch s2 \<and> \<not> transmitting s2 \<and> mic s2 = Some Paused
                  \<and> \<not> talkLed (hw s2))"
proof -
  let ?s = "txEvents evs s0"
  obtain m1 where m1: "mic ?s = Some m1"
    using txEvents_mic_present [OF assms] by blast
  let ?d = "snd (txEvent DOWN t ?s)"
  have d_eq: "?d = ?s\<lparr>mic := Some Capturing, txTimes := take 2 (t # txTimes ?s),
                     transmitting := True, hw := (hw ?s)\<lparr>talkLed := True\<rparr>\<rparr>"
    by (simp add: txEvent_DOWN_ok [OF m1])
  have d: "transmitting ?d \<and> mic ?d = Some Capturing \<and> talkLed (hw ?d)"
    by (simp add: d_eq)
  have d_hist: "txTimes ?d = take 2 (t # txTimes ?s)" "stopTxTimes ?d = stopTxTimes ?s"
    by (simp_all add: d_eq)
  have A: "let s1 = txEvents (evs @ [(DOWN, t)]) s0
           in transmitting s1 \<and> mic s1 = Some Capturing \<and> talkLed (hw s1)"
    using d by (simp add: txEvents_append)
  let ?v = "snd (txEvent UP t' ?s)"
  have v: "\<not> micLatch ?v \<Longrightarrow>
             \<not> transmitting ?v \<and> mic ?v = Some Paused \<and> \<not> talkLed (hw ?v)"
    using txEvent_UP_unlatched [OF m1] by simp
  have B: "let s = txEvents evs s0;
               down = txTimes s;
               stop = take 2 (t' # stopTxTimes s);
               s3 = txEvents (evs @ [(UP, t')]) s0
          in if length down = 2 \<and> length stop = 2
                \<and> stop ! 1 - down ! 1 \<le> 500
                \<and> stop ! 0 - down ! 0 \<le> 500
                \<and> down ! 0 - down ! 1 \<le> 750
             then micLatch s3
             else \<not> micLatch s3 \<and> \<not> transmitting s3 \<and> mic s3 = Some Paused
                  \<and> \<not> talkLed (hw s3)"
    unfolding Let_def txEvents_append
    using v txEvent_UP_micLatch_iff [of t' ?s] by auto
  let ?u = "snd (txEvent UP t' ?d)"
  have u_off: "\<not> micLatch ?u \<Longrightarrow>
             \<not> transmitting ?u \<and> mic ?u = Some Paused \<and> \<not> talkLed (hw ?u)"
    using txEvent_UP_unlatched [of ?d Capturing t'] d by simp
  have u_on: "micLatch ?u \<Longrightarrow> transmitting ?u \<and> mic ?u = Some Capturing \<and> talkLed (hw ?u)"
    using txEvent_UP_latched [of t' ?d] d by simp
  have u_iff: "micLatch ?u \<longleftrightarrow>
     (length (take 2 (t # txTimes ?s)) = 2 \<and> length (take 2 (t' # stopTxTimes ?s)) = 2
      \<and> take 2 (t' # stopTxTimes ?s) ! 1 - take 2 (t # txTimes ?s) ! 1 \<le> 500
      \<and> take 2 (t' # stopTxTimes ?s) ! 0 - take 2 (t # txTimes ?s) ! 0 \<le> 500
      \<and> take 2 (t # txTimes ?s) ! 0 - take 2 (t # txTimes ?s) ! 1 \<le> 750)"
    using txEvent_UP_micLatch_iff [of t' ?d] by (simp only: d_hist)
  have u_run: "txEvents (evs @ [(DOWN, t), (UP, t')]) s0 = ?u"
    by (simp add: txEvents_append)
  have C: "let s = txEvents evs s0;
               down = take 2 (t # txTimes s);
               stop = take 2 (t' # stopTxTimes s);
               s2 = txEvents (evs @ [(DOWN, t), (UP, t')]) s0
          in if length down = 2 \<and> length stop = 2
                \<and> stop ! 1 - down ! 1 \<le> 500
                \<and> stop ! 0 - down ! 0 \<le> 500
                \<and> down ! 0 - down ! 1 \<le> 750
             then micLatch s2 \<and> transmitting s2 \<and> mic s2 = Some Capturing \<and> talkLed (hw s2)
             else \<not> micLatch s2 \<and> \<not> transmitting s2 \<and> mic s2 = Some Paused
                  \<and> \<not> talkLed (hw s2)"
    unfolding Let_def u_run
    using u_off u_on u_iff by presburger
  from A B C show ?thesis by blast
qed

text \<open>
  C3 as stated fails in two ways. A second key-up right after a first one can fire the latch
  decision: the service is then latched with the microphone paused, transmitting false and
  the indicator off. And on a service set up without audio hardware there is no microphone
  object: the key-down handler throws and transmitting stays false.
\<close>

theorem transmitting_between_talk_edges_counterexample:
  "micLatch (txEvents [(DOWN, 0), (DOWN, 200), (UP, 300), (UP, 400)] ready_service)
   \<and> \<not> transmitting (txEvents [(DOWN, 0), (DOWN, 200), (UP, 300), (UP, 400)] ready_service)
   \<and> mic (txEvents [(DOWN, 0), (DOWN, 200), (UP, 300), (UP, 400)] ready_service) = Some Paused
   \<and> \<not> talkLed (hw (txEvents [(DOWN, 0), (DOWN, 200), (UP, 300), (UP, 400)] ready_service))
   \<and> fst (txEvent DOWN 0 service_without_audio) = Some TypeError
   \<and> \<not> transmitting (snd (txEvent DOWN 0 service_without_audio))"
  by (simp add: talk_eval service_without_audio_def)

theorem transmitting_between_talk_edges_witness:
  "mic ready_service = Some Paused
   \<and> transmitting (txEvents ([] @ [(DOWN, 0)]) ready_service)
   \<and> mic (txEvents ([] @ [(DOWN, 0)]) ready_service) = Some Capturing
   \<and> \<not> micLatch (txEvents ([] @ [(DOWN, 0), (UP, 10000)]) ready_service)
   \<and> \<not> transmitting (txEvents ([] @ [(DOWN, 0), (UP, 10000)]) ready_service)
   \<and> mic (txEvents ([] @ [(DOWN, 0), (UP, 10000)]) ready_service) = Some Paused
   \<and> \<not> talkLed (hw (txEvents ([] @ [(DOWN, 0), (UP, 10000)]) ready_service))
   \<and> micLatch (txEvents ([(DOWN, 0), (UP, 100)] @ [(DOWN, 200), (UP, 300)]) ready_service)
   \<and> transmitting (txEvents ([(DOWN, 0), (UP, 100)] @ [(DOWN, 200), (UP, 300)]) ready_service)
   \<and> mic (txEvents ([(DOWN, 0), (UP, 100)] @ [(DOWN, 200), (UP, 300)]) ready_service)
       = Some Capturing
   \<and> talkLed (hw (txEvents ([(DOWN, 0), (UP, 100)] @ [(DOWN, 200), (UP, 300)]) ready_service))
   \<and> \<not> micLatch (txEvents ([(DOWN, 0)] @ [(UP, 10000)]) ready_service)
   \<and> mic (txEvents ([(DOWN, 0)] @ [(UP, 10000)]) ready_service) = Some Paused"
proof -
  have h: "mic ready_service = Some Paused" by (simp add: ready_service_def)
  have e0: "txTimes (txEvents [] ready_service) = []"
    "stopTxTimes (txEvents [] ready_service) = []"
    by (simp_all add: talk_eval)
  have e1: "txTimes (txEvents [(DOWN, 0), (UP, 100)] ready_service) = [0]"
    "stopTxTimes (txEvents [(DOWN, 0), (UP, 100)] ready_service) = [100]"
    by (simp_all add: talk_eval)
  have e2: "txTimes (txEvents [(DOWN, 0)] ready_service) = [0]"
    "stopTxTimes (txEvents [(DOWN, 0)] ready_service) = []"
    by (simp_all add: talk_eval)
  note a = transmitting_between_talk_edges [OF h, of "[]" 0 10000]
  note b = transmitting_between_talk_edges [OF h, of "[(DOWN, 0), (UP, 100)]" 200 300]
  note c = transmitting_between_talk_edges [OF h, of "[(DOWN, 0)]" 0 10000]
  from a have a': "transmitting (txEvents ([] @ [(DOWN, 0)]) ready_service)
       \<and> mic (txEvents ([] @ [(DOWN, 0)]) ready_service) = Some Capturing
       \<and> \<not> micLatch (txEvents ([] @ [(DOWN, 0), (UP, 10000)]) ready_service)
       \<and> \<not> transmitting (txEvents ([] @ [(DOWN, 0), (UP, 10000)]) ready_service)
       \<and> mic (txEvents ([] @ [(DOWN, 0), (UP, 10000)]) ready_service) = Some Paused
       \<and> \<not> talkLed (hw (txEvents ([] @ [(DOWN, 0), (UP, 10000)]) ready_service))"
    unfolding Let_def e0 by simp
  from b have b': "micLatch (txEvents ([(DOWN, 0), (UP, 100)] @ [(DOWN, 200), (UP, 300)]) ready_service)
       \<and> transmitting (txEvents ([(DOWN, 0), (UP, 100)] @ [(DOWN, 200), (UP, 300)]) ready_service)
       \<and> mic (txEvents ([(DOWN, 0), (UP, 100)] @ [(DOWN, 200), (UP, 300)]) ready_service)
           = Some Capturing
       \<and> talkLed (hw (txEvents ([(DOWN, 0), (UP, 100)] @ [(DOWN, 200), (UP, 300)]) ready_service))"
    unfolding Let_def e1 by simp
  from c have c': "\<not> micLatch (txEvents ([(DOWN, 0)] @ [(UP, 10000)]) ready_service)
       \<and> mic (txEvents ([(DOWN, 0)] @ [(UP, 10000)]) ready_service) = Some Paused"
    unfolding Let_def e2 by simp
  from h a' b' c' show ?thesis by blast
qed

section \<open>Unlatching\<close>

lemma talk_inv_tx: "talk_inv s \<Longrightarrow> talk_inv (snd (txEvent e t s))"
proof (cases e)
  case DOWN
  assume "talk_inv s"
  then show ?thesis using DOWN by (auto simp: talk_inv_def txEvent_def split: option.splits)
next
  case UP
  assume inv: "talk_inv s"
  show ?thesis
  proof (cases "mic s")
    case None
    with inv have tx: "txTimes s = []" by (simp add: talk_inv_def)
    have "\<not> micLatch (snd (txEvent UP t s))"
      by (simp add: txEvent_UP_micLatch_iff tx)
    moreover have "txTimes (snd (txEvent UP t s)) = []"
      by (simp add: txEvent_UP_txTimes latchLogic_txTimes tx)
    ultimately show ?thesis using UP by (simp add: talk_inv_def)
  next
    case (Some m)
    from txEvent_mic_present [OF Some, of UP t] show ?thesis using UP by (auto simp: talk_inv_def)
  qed
qed

lemma unLatchMic_not_latched:
  "\<not> micLatch s \<Longrightarrow>
   unLatchMic now s = (Some (ErrorWithStatusCode 400 ''Cannot unlatch. Mic not latched''), s)"
  by (simp add: unLatchMic_def)

lemma unLatchMic_latched: "micLatch s \<Longrightarrow> unLatchMic now s = txEvent UP now s"
  by (simp add: unLatchMic_def)

lemma talk_inv_unlatch: "talk_inv s \<Longrightarrow> talk_inv (snd (unLatchMic t s))"
  by (cases "micLatch s") (simp_all add: unLatchMic_not_latched unLatchMic_latched talk_inv_tx)

lemma talk_reach_inv: "talk_reach s \<Longrightarrow> talk_inv s"
proof (induction rule: talk_reach.induct)
  case (reach_init u h m a c)
  show ?case by (simp add: talk_inv_def PiComService_def)
next
  case (reach_tx s e t)
  then show ?case by (simp add: talk_inv_tx)
next
  case (reach_unlatch s t)
  then show ?case by (simp add: talk_inv_unlatch)
next
  case (reach_health s)
  then show ?case by (simp add: talk_inv_def healthCheckCallback_def)
next
  case (reach_call s b c)
  then show ?case by (simp add: talk_inv_def)
next
  case (reach_session s c)
  then show ?case by (simp add: talk_inv_def)
next
  case (reach_reconfigure s m a c)
  then show ?case by (auto simp: talk_inv_def)
qed

text \<open>
  C5, as amended. \<open>unLatchMic\<close> on a service that is not latched fails with the
  status-400 error and changes nothing, so transmitting is as before. On a latched service
  it is the key-up handler run at that moment. In every state the service reaches, if the
  latch decision of that key-up does not fire, the call returns normally and leaves
  transmitting false, the latch off, the microphone paused and the talk indicator off.
\<close>

theorem unLatchMic_behaviour:
  "(\<not> micLatch s \<longrightarrow>
      unLatchMic now s = (Some (ErrorWithStatusCode 400 ''Cannot unlatch. Mic not latched''), s)
      \<and> transmitting (snd (unLatchMic now s)) = transmitting s)
   \<and> (micLatch s \<longrightarrow> unLatchMic now s = txEvent UP now s)
   \<and> (talk_reach s \<and> micLatch s
        \<and> \<not> (let down = txTimes s; stop = take 2 (now # stopTxTimes s)
              in length down = 2 \<and> length stop = 2
                 \<and> stop ! 1 - down ! 1 \<le> 500
                 \<and> stop ! 0 - down ! 0 \<le> 500
                 \<and> down ! 0 - down ! 1 \<le> 750) \<longrightarrow>
        fst (unLatchMic now s) = None
        \<and> \<not> transmitting (snd (unLatchMic now s))
        \<and> \<not> micLatch (snd (unLatchMic now s))
        \<and> mic (snd (unLatchMic now s)) = Some Paused
        \<and> \<not> talkLed (hw (snd (unLatchMic now s))))"
proof -
  have off: "fst (unLatchMic now s) = None
        \<and> \<not> transmitting (snd (unLatchMic now s))
        \<and> \<not> micLatch (snd (unLatchMic now s))
        \<and> mic (snd (unLatchMic now s)) = Some Paused
        \<and> \<not> talkLed (hw (snd (unLatchMic now s)))"
    if r: "talk_reach s" and l: "micLatch s" and nl: "\<not> micLatch (snd (txEvent UP now s))"
  proof -
    have "talk_inv s" by (rule talk_reach_inv [OF r])
    with l obtain m where m: "mic s = Some m" by (cases "mic s") (auto simp: talk_inv_def)
    from txEvent_UP_unlatched [OF m nl] nl show ?thesis
      by (simp add: unLatchMic_latched [OF l])
  qed
  have A: "\<not> micLatch s \<longrightarrow>
      unLatchMic now s = (Some (ErrorWithStatusCode 400 ''Cannot unlatch. Mic not latched''), s)
      \<and> transmitting (snd (unLatchMic now s)) = transmitting s"
    by (simp add: unLatchMic_not_latched)
  have B: "micLatch s \<longrightarrow> unLatchMic now s = txEvent UP now s"
    by (simp add: unLatchMic_latched)
  have C: "talk_reach s \<and> micLatch s
        \<and> \<not> (let down = txTimes s; stop = take 2 (now # stopTxTimes s)
              in length down = 2 \<and> length stop = 2
                 \<and> stop ! 1 - down ! 1 \<le> 500
                 \<and> stop ! 0 - down ! 0 \<le> 500
                 \<and> down ! 0 - down ! 1 \<le> 750) \<longrightarrow>
        fst (unLatchMic now s) = None
        \<and> \<not> transmitting (snd (unLatchMic now s))
        \<and> \<not> micLatch (snd (unLatchMic now s))
        \<and> mic (snd (unLatchMic now s)) = Some Paused
        \<and> \<not> talkLed (hw (snd (unLatchMic now s)))"
    unfolding Let_def using off txEvent_UP_micLatch_iff [of now s] by blast
  from A B C show ?thesis by blast
qed

text \<open>
  C5 as stated fails. After two key-downs in a row on a latched service the key-down
  history holds two entries, and an unlatch within the windows fires the latch decision
  again: the call returns normally, the service is still latched and transmitting, capture
  is running and the indicator is on.
\<close>

theorem unLatchMic_behaviour_counterexample:
  "micLatch (txEvents [(DOWN, 0), (UP, 100), (DOWN, 200), (UP, 300), (DOWN, 400), (DOWN, 450)]
      ready_service)
   \<and> fst (unLatchMic 500
        (txEvents [(DOWN, 0), (UP, 100), (DOWN, 200), (UP, 300), (DOWN, 400), (DOWN, 450)]
           ready_service)) = None
   \<and> micLatch (snd (unLatchMic 500
        (txEvents [(DOWN, 0), (UP, 100), (DOWN, 200), (UP, 300), (DOWN, 400), (DOWN, 450)]
           ready_service)))
   \<and> transmitting (snd (unLatchMic 500
        (txEvents [(DOWN, 0), (UP, 100), (DOWN, 200), (UP, 300), (DOWN, 400), (DOWN, 450)]
           ready_service)))
   \<and> mic (snd (unLatchMic 500
        (txEvents [(DOWN, 0), (UP, 100), (DOWN, 200), (UP, 300), (DOWN, 400), (DOWN, 450)]
           ready_service))) = Some Capturing
   \<and> talkLed (hw (snd (unLatchMic 500
        (txEvents [(DOWN, 0), (UP, 100), (DOWN, 200), (UP, 300), (DOWN, 400), (DOWN, 450)]
           ready_service))))"
  by (simp add: talk_eval)

theorem unLatchMic_behaviour_witness:
  "talk_reach (txEvents [(DOWN, 0), (UP, 100), (DOWN, 200), (UP, 300)] ready_service)
   \<and> micLatch (txEvents [(DOWN, 0), (UP, 100), (DOWN, 200), (UP, 300)] ready_service)
   \<and> txTimes (txEvents [(DOWN, 0), (UP, 100), (DOWN, 200), (UP, 300)] ready_service) = []
   \<and> unLatchMic 5000 (txEvents [(DOWN, 0), (UP, 100), (DOWN, 200), (UP, 300)] ready_service)
       = txEvent UP 5000 (txEvents [(DOWN, 0), (UP, 100), (DOWN, 200), (UP, 300)] ready_service)
   \<and> fst (unLatchMic 5000 (txEvents [(DOWN, 0), (UP, 100), (DOWN, 200), (UP, 300)] ready_service)) = None
   \<and> \<not> transmitting (snd (unLatchMic 5000
         (txEvents [(DOWN, 0), (UP, 100), (DOWN, 200), (UP, 300)] ready_service)))
   \<and> \<not> micLatch (snd (unLatchMic 5000
         (txEvents [(DOWN, 0), (UP, 100), (DOWN, 200), (UP, 300)] ready_service)))
   \<and> mic (snd (unLatchMic 5000
         (txEvents [(DOWN, 0), (UP, 100), (DOWN, 200), (UP, 300)] ready_service))) = Some Paused
   \<and> \<not> talkLed (hw (snd (unLatchMic 5000
         (txEvents [(DOWN, 0), (UP, 100), (DOWN, 200), (UP, 300)] ready_service))))
   \<and> \<not> micLatch ready_service
   \<and> unLatchMic 5000 ready_service
       = (Some (ErrorWithStatusCode 400 ''Cannot unlatch. Mic not latched''), ready_service)"
proof -
  let ?s = "txEvents [(DOWN, 0), (UP, 100), (DOWN, 200), (UP, 300)] ready_service"
  have r0: "talk_reach ready_service"
    unfolding ready_service_def by (rule reach_init)
  have r: "talk_reach ?s"
    using reach_tx [OF reach_tx [OF reach_tx [OF reach_tx [OF r0, of DOWN 0], of UP 100],
                      of DOWN 200], of UP 300]
    by simp
  have l: "micLatch ?s" by (simp add: talk_eval)
  have tx: "txTimes ?s = []" by (simp add: talk_eval)
  have n: "\<not> micLatch ready_service" by (simp add: talk_eval)
  have quiet: "\<not> (let down = txTimes ?s; stop = take 2 (5000 # stopTxTimes ?s)
              in length down = 2 \<and> length stop = 2
                 \<and> stop ! 1 - down ! 1 \<le> 500
                 \<and> stop ! 0 - down ! 0 \<le> 500
                 \<and> down ! 0 - down ! 1 \<le> 750)"
    unfolding Let_def tx by simp
  note u = unLatchMic_behaviour [of ?s 5000]
  note v = unLatchMic_behaviour [of ready_service 5000]
  from u r l quiet have a: "unLatchMic 5000 ?s = txEvent UP 5000 ?s
        \<and> fst (unLatchMic 5000 ?s) = None \<and> \<not> transmitting (snd (unLatchMic 5000 ?s))
        \<and> \<not> micLatch (snd (unLatchMic 5000 ?s))
        \<and> mic (snd (unLatchMic 5000 ?s)) = Some Paused
        \<and> \<not> talkLed (hw (snd (unLatchMic 5000 ?s)))" by blast
  from v n have b: "unLatchMic 5000 ready_service
       = (Some (ErrorWithStatusCode 400 ''Cannot unlatch. Mic not latched''), ready_service)"
    by blast
  from r l tx a n b show ?thesis by blast
qed

section \<open>Status aggregation\<close>

lemma filter_nonempty_iff: "0 < length (filter (\<lambda>m. snd m = v) ms) \<longleftrightarrow> v \<in> snd ` set ms"
  by (induction ms) auto

lemma errorState_messages:
  "snd (errorState s) =
     rule_messages (audioStatus s) (setupDone (hw s)) (connected (mumble s)) (connectCalled (mumble s))"
  by (simp add: errorState_def rule_messages_def mumble_status_def Let_def)

lemma errorState_overall: "fst (errorState s) = overall_severity (snd (errorState s))"
  unfolding errorState_def Let_def overall_severity_def filter_nonempty_iff
  by simp

text \<open>
  C4. The status report is a function of the audio status, the hardware's setup flag and
  the session's two flags alone: its messages are the five rules in their fixed order, its
  overall severity is ERROR if a message is an error, else WARNING if one is a warning,
  else NORMAL; the health check drives the error indicator exactly when the overall
  severity is ERROR. With audio not configured, hardware set up, and a session neither
  connected nor attempted, the report is WARNING with exactly the two warnings for audio
  and for the connection not attempted.
\<close>

theorem errorState_reduction:
  "errorState s =
     (overall_severity
        (rule_messages (audioStatus s) (setupDone (hw s)) (connected (mumble s))
           (connectCalled (mumble s))),
      rule_messages (audioStatus s) (setupDone (hw s)) (connected (mumble s))
        (connectCalled (mumble s)))
   \<and> errorFlasher (hw (healthCheckCallback s)) = (fst (errorState s) = STATUS_ERROR)
   \<and> errorState
        (s\<lparr>audioStatus := AUDIO_NOT_SETUP, hw := (hw s)\<lparr>setupDone := True\<rparr>,
           mumble := (mumble s)\<lparr>connected := False, connectCalled := False\<rparr>\<rparr>)
      = (STATUS_WARN,
         [(''WARNING - Audio Not Setup'', STATUS_WARN),
          (''WARNING - Mumble Connection Not Attempted'', STATUS_WARN)])"
proof (intro conjI)
  show "errorState s =
     (overall_severity
        (rule_messages (audioStatus s) (setupDone (hw s)) (connected (mumble s))
           (connectCalled (mumble s))),
      rule_messages (audioStatus s) (setupDone (hw s)) (connected (mumble s))
        (connectCalled (mumble s)))"
    using errorState_overall [of s] errorState_messages [of s]
    by (metis prod.collapse)
  show "errorFlasher (hw (healthCheckCallback s)) = (fst (errorState s) = STATUS_ERROR)"
    by (simp add: healthCheckCallback_def)
  show "errorState
        (s\<lparr>audioStatus := AUDIO_NOT_SETUP, hw := (hw s)\<lparr>setupDone := True\<rparr>,
           mumble := (mumble s)\<lparr>connected := False, connectCalled := False\<rparr>\<rparr>)
      = (STATUS_WARN,
         [(''WARNING - Audio Not Setup'', STATUS_WARN),
          (''WARNING - Mumble Connection Not Attempted'', STATUS_WARN)])"
    by (simp add: errorState_def mumble_status_def)
qed

theorem errorState_reduction_witness:
  "errorState ready_service = (STATUS_NORMAL, [])
   \<and> \<not> errorFlasher (hw (healthCheckCallback ready_service))
   \<and> errorState (ready_service\<lparr>audioStatus := AUDIO_SETUP_ERROR,
        mumble := connect (MumbleClientWrapper ''picom'')\<rparr>)
       = (STATUS_ERROR, [(''ERROR - Audio Error'', STATUS_ERROR),
                         (''ERROR - Mumble Not Connected'', STATUS_ERROR)])
   \<and> errorFlasher (hw (healthCheckCallback (ready_service\<lparr>audioStatus := AUDIO_SETUP_ERROR,
        mumble := connect (MumbleClientWrapper ''picom'')\<rparr>)))"
  using errorState_reduction [of ready_service]
        errorState_reduction [of "ready_service\<lparr>audioStatus := AUDIO_SETUP_ERROR,
            mumble := connect (MumbleClientWrapper ''picom'')\<rparr>"]
  by (simp add: ready_service_def PiComService_def readyClient_eq connect_def
        MumbleClientWrapper_def rule_messages_def overall_severity_def)

section \<open>Disconnecting without a connection\<close>

text \<open>
  C9. On a client that holds no connection object, \<open>disconnect\<close> fails with a TypeError
  on the undefined field instead of doing nothing; the connected flag has been set to
  false before the failure.
\<close>

theorem disconnect_without_connection:
  "connection c = None \<Longrightarrow>
   disconnect c = (Some TypeError, c\<lparr>connected := False\<rparr>)
   \<and> \<not> connected (snd (disconnect c))"
  by (simp add: disconnect_def Let_def)

theorem disconnect_without_connection_witness:
  "connection (connect (MumbleClientWrapper ''picom'')) = None
   \<and> disconnect (connect (MumbleClientWrapper ''picom''))
       = (Some TypeError, (connect (MumbleClientWrapper ''picom''))\<lparr>connected := False\<rparr>)
   \<and> \<not> connected (snd (disconnect (connect (MumbleClientWrapper ''picom''))))"
proof -
  have h: "connection (connect (MumbleClientWrapper ''picom'')) = None"
    by (simp add: connect_def MumbleClientWrapper_def)
  from disconnect_without_connection [OF h] h show ?thesis by simp
qed

section \<open>Joining a channel that does not exist\<close>

text \<open>
  C6. When the lookup returns nothing the join is rejected at once with the 404 error: no
  \<open>join()\<close> was called, no polling attempt was made and no timer is waiting, so later
  turns of the event loop change nothing. \<open>joinChannelByName\<close> and \<open>joinChannelById\<close>
  on a stored connection whose lookup finds nothing are this case.
\<close>

theorem join_lookup_nothing:
  "channelJoinerWithChannelFetchFunc (Inr None) cur =
     \<lparr>joinPromise = Rejected (ErrorWithStatusCode 404 ''Channel does not exist''),
      retryCount = 0, joinCalls = [], timerPending = False\<rparr>
   \<and> timerTicks n cur ch (channelJoinerWithChannelFetchFunc (Inr None) cur)
       = channelJoinerWithChannelFetchFunc (Inr None) cur
   \<and> (connection c = Some conn \<and> channelByName conn name = None \<longrightarrow>
        joinChannelByName name cur c = channelJoinerWithChannelFetchFunc (Inr None) cur)
   \<and> (connection c = Some conn \<and> channelById conn i = None \<longrightarrow>
        joinChannelById i cur c = channelJoinerWithChannelFetchFunc (Inr None) cur)"
proof -
  have a: "channelJoinerWithChannelFetchFunc (Inr None) cur =
     \<lparr>joinPromise = Rejected (ErrorWithStatusCode 404 ''Channel does not exist''),
      retryCount = 0, joinCalls = [], timerPending = False\<rparr>"
    by (simp add: channelJoinerWithChannelFetchFunc_def join_start_def reject_def)
  have b: "timerTicks n cur ch j = j" if "\<not> timerPending j" for j
    using that by (induction n) (simp_all add: timerTick_def)
  have c: "timerTicks n cur ch (channelJoinerWithChannelFetchFunc (Inr None) cur)
       = channelJoinerWithChannelFetchFunc (Inr None) cur"
    by (rule b) (simp add: a)
  show ?thesis using a c by (simp add: joinChannelByName_def joinChannelById_def)
qed

theorem join_lookup_nothing_witness:
  "connection (readyClient fresh_conn (MumbleClientWrapper ''picom'')) \<noteq> None
   \<and> joinChannelByName ''Nowhere'' never_there (readyClient fresh_conn (MumbleClientWrapper ''picom''))
       = \<lparr>joinPromise = Rejected (ErrorWithStatusCode 404 ''Channel does not exist''),
          retryCount = 0, joinCalls = [], timerPending = False\<rparr>
   \<and> joinChannelById 7 never_there (readyClient fresh_conn (MumbleClientWrapper ''picom''))
       = \<lparr>joinPromise = Rejected (ErrorWithStatusCode 404 ''Channel does not exist''),
          retryCount = 0, joinCalls = [], timerPending = False\<rparr>"
proof -
  let ?c = "readyClient fresh_conn (MumbleClientWrapper ''picom'')"
  let ?conn = "fresh_conn\<lparr>authenticatedAs := Some ''picom'',
         listeners := [(''initialized'', InitializedCb), (''voice'', OnVoice),
                       (''message'', OnMessage), (''error'', OnError)]\<rparr>"
  have c: "connection ?c = Some ?conn"
    by (simp add: readyClient_eq MumbleClientWrapper_def)
  have a: "channelByName ?conn ''Nowhere'' = None" by (simp add: fresh_conn_def)
  have b: "channelById ?conn 7 = None" by (simp add: fresh_conn_def)
  from join_lookup_nothing [of never_there 0 landing ?c ?conn "''Nowhere''" 7] c a b
  show ?thesis by simp
qed

section \<open>Errors after readiness\<close>

lemma connectionEmit_error_only_OnError:
  assumes "connection c = Some conn"
    and "map snd (filter (\<lambda>l. fst l = ''error'') (listeners conn)) = [OnError]"
  shows "connectionEmit (EvError e) c = onError e c"
  using assms by (simp add: connectionEmit_def)

lemma onError_frame:
  "connected (onError e c) = connected c" "connectCalled (onError e c) = connectCalled c"
  "connection (onError e c) = connection c" "connectPromise (onError e c) = connectPromise c"
  "cfg_username (onError e c) = cfg_username c"
  by (simp_all add: onError_def)

lemma post_ready_errors:
  assumes "connection c = Some conn"
    and "map snd (filter (\<lambda>l. fst l = ''error'') (listeners conn)) = [OnError]"
  shows "fold (\<lambda>e. connectionEmit (EvError e)) es c =
     c\<lparr>emitted := emitted c @
        map (\<lambda>e. EmitError (ErrorWithStatusCode 500
               ''Mumble connection has terminated due to an error. Re-connect needed'')) es\<rparr>"
  using assms
proof (induction es arbitrary: c)
  case Nil
  then show ?case by simp
next
  case (Cons e es)
  have step: "connectionEmit (EvError e) c = onError e c"
    by (rule connectionEmit_error_only_OnError [OF Cons.prems])
  have "connection (onError e c) = Some conn" using Cons.prems(1) by (simp add: onError_frame)
  from Cons.IH [OF this Cons.prems(2)] show ?case
    by (simp add: step) (simp add: onError_def)
qed

text \<open>
  C7. The handler for errors after readiness touches neither the connected flag, nor the
  stored connection, nor the connect promise. On a client brought to readiness, an error
  event of the connection runs exactly that handler, and any number of such errors leave
  the client connected and only add one emitted error event each.
\<close>

theorem post_ready_error_keeps_connected:
  "connected (onError e c) = connected c
   \<and> connection (onError e c) = connection c
   \<and> connectPromise (onError e c) = connectPromise c
   \<and> connected (readyClient conn c)
   \<and> connectionEmit (EvError e) (readyClient conn c) = onError e (readyClient conn c)
   \<and> fold (\<lambda>e. connectionEmit (EvError e)) es (readyClient conn c) =
       (readyClient conn c)\<lparr>emitted := emitted c @
          map (\<lambda>e. EmitError (ErrorWithStatusCode 500
                 ''Mumble connection has terminated due to an error. Re-connect needed'')) es\<rparr>
   \<and> connected (fold (\<lambda>e. connectionEmit (EvError e)) es (readyClient conn c))"
proof -
  let ?conn = "conn\<lparr>authenticatedAs := Some (cfg_username c),
         listeners := [(''initialized'', InitializedCb), (''voice'', OnVoice),
                       (''message'', OnMessage), (''error'', OnError)]\<rparr>"
  have c1: "connection (readyClient conn c) = Some ?conn" by (simp add: readyClient_eq)
  have c2: "map snd (filter (\<lambda>l. fst l = ''error'') (listeners ?conn)) = [OnError]" by simp
  have em: "emitted (readyClient conn c) = emitted c" by (simp add: readyClient_eq)
  have r: "connected (readyClient conn c)" by (simp add: readyClient_eq)
  note f = post_ready_errors [OF c1 c2, of es]
  have one: "connectionEmit (EvError e) (readyClient conn c) = onError e (readyClient conn c)"
    by (rule connectionEmit_error_only_OnError [OF c1 c2])
  have conn_after: "connected (fold (\<lambda>e. connectionEmit (EvError e)) es (readyClient conn c))"
    using r by (simp add: f)
  show ?thesis using r one f conn_after by (simp add: onError_frame em)
qed

theorem post_ready_error_keeps_connected_witness:
  "connected (fold (\<lambda>e. connectionEmit (EvError e)) [''socket closed'', ''reset'']
       (readyClient fresh_conn (MumbleClientWrapper ''picom'')))
   \<and> length (emitted (fold (\<lambda>e. connectionEmit (EvError e)) [''socket closed'', ''reset'']
       (readyClient fresh_conn (MumbleClientWrapper ''picom'')))) = 2"
  using post_ready_error_keeps_connected
          [of "''x''" "MumbleClientWrapper ''picom''" fresh_conn "[''socket closed'', ''reset'']"]
  by (simp add: MumbleClientWrapper_def)

section \<open>Polling for the joined channel\<close>

lemma whileLoop_mismatch:
  "ch_id channel \<noteq> cur (retryCount j + 1) \<Longrightarrow>
   whileLoop cur channel j =
     j\<lparr>retryCount := retryCount j + 1,
       joinPromise := (if retryCount j + 1 > RETRY_LIMIT
                       then reject (PlainRejection ''Max retry exceeded'') (joinPromise j)
                       else joinPromise j),
       timerPending := True\<rparr>"
  by (simp add: whileLoop_def Let_def)

lemma poll_never_match:
  assumes "\<forall>k. cur k \<noteq> ch_id channel"
  shows "timerTicks n cur channel (channelJoinerWithChannelFetchFunc (Inr (Some channel)) cur) =
     \<lparr>joinPromise = (if n + 1 > RETRY_LIMIT
                     then Rejected (PlainRejection ''Max retry exceeded'') else Pending),
      retryCount = n + 1, joinCalls = [channel], timerPending = True\<rparr>"
proof (induction n)
  case 0
  have "ch_id channel \<noteq> cur (retryCount (join_start\<lparr>joinCalls := [channel]\<rparr>) + 1)"
    using assms by metis
  from whileLoop_mismatch [of channel cur "join_start\<lparr>joinCalls := [channel]\<rparr>", OF this]
  show ?case
    by (simp add: channelJoinerWithChannelFetchFunc_def join_start_def RETRY_LIMIT_def)
next
  case (Suc n)
  let ?j = "\<lparr>joinPromise = (if n + 1 > RETRY_LIMIT
                     then Rejected (PlainRejection ''Max retry exceeded'') else Pending),
      retryCount = n + 1, joinCalls = [channel], timerPending = False\<rparr>"
  have "ch_id channel \<noteq> cur (retryCount ?j + 1)" using assms by metis
  from whileLoop_mismatch [of channel cur ?j, OF this] show ?case
    by (simp add: Suc timerTick_def reject_def RETRY_LIMIT_def)
qed

text \<open>
  C2, as amended. When the session's current channel never has the identifier of the
  channel looked up, the join stays pending through the first 1000 polling attempts and
  is rejected with the retry error at attempt 1001, the first whose count exceeds the
  budget of 1000, and remains rejected; \<open>join()\<close> was called once. A join by name or
  by identifier on a stored connection whose lookup finds the channel is this operation.
\<close>

theorem join_timeout_on_attempt_1001:
  assumes "\<forall>k. cur k \<noteq> ch_id channel"
  shows "retryCount (timerTicks n cur channel
             (channelJoinerWithChannelFetchFunc (Inr (Some channel)) cur)) = n + 1
       \<and> (n + 1 \<le> 1000 \<longrightarrow>
            joinPromise (timerTicks n cur channel
              (channelJoinerWithChannelFetchFunc (Inr (Some channel)) cur)) = Pending)
       \<and> (n + 1 > 1000 \<longrightarrow>
            joinPromise (timerTicks n cur channel
              (channelJoinerWithChannelFetchFunc (Inr (Some channel)) cur))
              = Rejected (PlainRejection ''Max retry exceeded''))
       \<and> joinCalls (timerTicks n cur channel
             (channelJoinerWithChannelFetchFunc (Inr (Some channel)) cur)) = [channel]
       \<and> RETRY_LIMIT = 1000
       \<and> (connection c = Some conn \<and> channelByName conn name = Some channel \<longrightarrow>
            joinChannelByName name cur c
              = channelJoinerWithChannelFetchFunc (Inr (Some channel)) cur)
       \<and> (connection c = Some conn \<and> channelById conn i = Some channel \<longrightarrow>
            joinChannelById i cur c
              = channelJoinerWithChannelFetchFunc (Inr (Some channel)) cur)"
  by (simp add: poll_never_match [OF assms] RETRY_LIMIT_def joinChannelByName_def
        joinChannelById_def)

text \<open>
  C2 as stated fails: after exactly 1000 polling attempts the join is still pending; the
  rejection comes with the next attempt.
\<close>

theorem join_timeout_counterexample:
  "joinPromise (timerTicks 999 never_there landing
      (channelJoinerWithChannelFetchFunc (Inr (Some landing)) never_there)) = Pending
   \<and> retryCount (timerTicks 999 never_there landing
      (channelJoinerWithChannelFetchFunc (Inr (Some landing)) never_there)) = 1000
   \<and> joinPromise (timerTicks 1000 never_there landing
      (channelJoinerWithChannelFetchFunc (Inr (Some landing)) never_there))
       = Rejected (PlainRejection ''Max retry exceeded'')"
proof -
  have h: "\<forall>k. never_there k \<noteq> ch_id landing" by (simp add: never_there_def landing_def)
  show ?thesis by (simp add: poll_never_match [OF h] RETRY_LIMIT_def)
qed

theorem join_timeout_on_attempt_1001_witness:
  "(\<forall>k. never_there k \<noteq> ch_id landing)
   \<and> joinPromise (timerTicks 5 never_there landing
      (joinChannelByName ''Landing Channel'' never_there
         (readyClient fresh_conn (MumbleClientWrapper ''picom'')))) = Pending
   \<and> joinPromise (timerTicks 2000 never_there landing
      (joinChannelById 1 never_there
         (readyClient fresh_conn (MumbleClientWrapper ''picom''))))
       = Rejected (PlainRejection ''Max retry exceeded'')"
proof -
  let ?c = "readyClient fresh_conn (MumbleClientWrapper ''picom'')"
  let ?conn = "fresh_conn\<lparr>authenticatedAs := Some ''picom'',
         listeners := [(''initialized'', InitializedCb), (''voice'', OnVoice),
                       (''message'', OnMessage), (''error'', OnError)]\<rparr>"
  have h: "\<forall>k. never_there k \<noteq> ch_id landing" by (simp add: never_there_def landing_def)
  have c: "connection ?c = Some ?conn" by (simp add: readyClient_eq MumbleClientWrapper_def)
  have a: "channelByName ?conn ''Landing Channel'' = Some landing" by (simp add: fresh_conn_def)
  have b: "channelById ?conn 1 = Some landing" by (simp add: fresh_conn_def)
  from join_timeout_on_attempt_1001 [OF h, of 5 ?c ?conn "''Landing Channel''" 1] c a
  have p: "joinPromise (timerTicks 5 never_there landing
      (joinChannelByName ''Landing Channel'' never_there ?c)) = Pending" by simp
  from join_timeout_on_attempt_1001 [OF h, of 2000 ?c ?conn "''Landing Channel''" 1] c b
  have q: "joinPromise (timerTicks 2000 never_there landing (joinChannelById 1 never_there ?c))
       = Rejected (PlainRejection ''Max retry exceeded'')" by simp
  from h p q show ?thesis by blast
qed

text \<open>
  C10. When the current channel never matches, a timer callback is waiting after every
  turn of the event loop and each turn is one more polling attempt: the polling never
  stops. In particular, once the count exceeds the budget and the promise is rejected,
  the loop has set its timer again and the next turn polls again.
\<close>

theorem polling_never_stops:
  assumes "\<forall>k. cur k \<noteq> ch_id channel"
  shows "timerPending (timerTicks n cur channel
             (channelJoinerWithChannelFetchFunc (Inr (Some channel)) cur))
       \<and> retryCount (timerTicks n cur channel
             (channelJoinerWithChannelFetchFunc (Inr (Some channel)) cur)) = n + 1
       \<and> (n + 1 > RETRY_LIMIT \<longrightarrow>
            joinPromise (timerTicks n cur channel
              (channelJoinerWithChannelFetchFunc (Inr (Some channel)) cur))
              = Rejected (PlainRejection ''Max retry exceeded'')
            \<and> timerPending (timerTicks (Suc n) cur channel
                (channelJoinerWithChannelFetchFunc (Inr (Some channel)) cur))
            \<and> retryCount (timerTicks (Suc n) cur channel
                (channelJoinerWithChannelFetchFunc (Inr (Some channel)) cur)) = n + 2)"
  by (simp add: poll_never_match [OF assms])

theorem polling_never_stops_witness:
  "(\<forall>k. never_there k \<noteq> ch_id landing)
   \<and> timerPending (timerTicks 5000 never_there landing
      (channelJoinerWithChannelFetchFunc (Inr (Some landing)) never_there))
   \<and> retryCount (timerTicks 5000 never_there landing
      (channelJoinerWithChannelFetchFunc (Inr (Some landing)) never_there)) = 5001
   \<and> joinPromise (timerTicks 5000 never_there landing
      (channelJoinerWithChannelFetchFunc (Inr (Some landing)) never_there))
       = Rejected (PlainRejection ''Max retry exceeded'')"
proof -
  have h: "\<forall>k. never_there k \<noteq> ch_id landing" by (simp add: never_there_def landing_def)
  from polling_never_stops [OF h, of 5000] h show ?thesis by (simp add: RETRY_LIMIT_def)
qed

end
